theory Spec2Isabelle
  imports Complex_Main "HOL-Library.AList"
begin

section \<open>JSON values and request bodies\<close>

text \<open>
  The handlers receive \<open>req.body\<close> as parsed by the JSON body parser and answer with
  \<open>res.status(n).json(v)\<close>. A JSON number is modelled by the rational it denotes.
  An object is an association list with one entry per key, in the order of the text.
\<close>

datatype json =
    JNull
  | JBool bool
  | JNum rat
  | JStr string
  | JArr "json list"
  | JObj "(string \<times> json) list"

type_synonym obj = "(string \<times> json) list"

definition field :: "obj \<Rightarrow> string \<Rightarrow> json option" where
  "field ob k = map_of ob k"



section \<open>The runtime underneath the models\<close>

text \<open>
  An ObjectId is kept as the 24 lower-case hexadecimal digits that the driver prints for
  it. A string denotes an ObjectId when it consists of 24 hexadecimal digits.
\<close>

type_synonym objectid = string

definition is_hex :: "char \<Rightarrow> bool" where
  "is_hex c = (c \<in> set ''0123456789abcdefABCDEF'')"

definition lower_hex :: "char \<Rightarrow> char" where
  "lower_hex c =
     (if c = CHR ''A'' then CHR ''a'' else if c = CHR ''B'' then CHR ''b''
      else if c = CHR ''C'' then CHR ''c'' else if c = CHR ''D'' then CHR ''d''
      else if c = CHR ''E'' then CHR ''e'' else if c = CHR ''F'' then CHR ''f''
      else c)"

definition castObjectId :: "string \<Rightarrow> objectid option" where
  "castObjectId s =
     (if length s = 24 \<and> list_all is_hex s then Some (map lower_hex s) else None)"

text \<open>
  What the JavaScript runtime and the driver supply and the source does not fix:
  \<open>Number(s)\<close> on a string (\<open>None\<close> is \<open>NaN\<close>), \<open>String(n)\<close> on a number, and the
  ObjectIds generated while one request is served (\<open>newObjectId rt 0\<close> for the document,
  \<open>newObjectId rt (Suc i)\<close> for the subdocument at index \<open>i\<close>). Every handler that
  casts or creates takes them as a parameter.
\<close>

record runtime =
  Number_of :: "string \<Rightarrow> rat option"
  String_of :: "rat \<Rightarrow> string"
  newObjectId :: "nat \<Rightarrow> objectid"

section \<open>Schemas (src/models)\<close>

datatype ptype = TString | TNumber | TObjectId

text \<open>
  \<open>Leaf name type required enum\<close> is \<open>name: { type: T, required: r, enum: e }\<close>;
  \<open>LeafArray name type required\<close> is \<open>name: { type: [T], required: r }\<close>;
  \<open>DocArray name leaves\<close> is \<open>name: [ { ... } ]\<close>, an array of subdocuments.
\<close>

datatype leaf =
    Leaf string ptype bool "string list option"
  | LeafArray string ptype bool

datatype path =
    Field leaf
  | DocArray string "leaf list"

type_synonym schema = "path list"

fun leaf_name :: "leaf \<Rightarrow> string" where
  "leaf_name (Leaf n t r e) = n"
| "leaf_name (LeafArray n t r) = n"

fun path_name :: "path \<Rightarrow> string" where
  "path_name (Field l) = leaf_name l"
| "path_name (DocArray n ls) = n"

definition quizSchema :: schema where
  "quizSchema =
     [ Field (Leaf ''courseId'' TObjectId True None),
       DocArray ''questions''
         [ Leaf ''question'' TString True None,
           LeafArray ''options'' TString True,
           Leaf ''correctAnswer'' TString True None ] ]"

definition courseSchema :: schema where
  "courseSchema =
     [ Field (Leaf ''category'' TString True None),
       Field (Leaf ''title'' TString True None),
       Field (Leaf ''description'' TString True None),
       Field (Leaf ''duration'' TNumber True None),
       Field (Leaf ''instructorName'' TString True None),
       Field (Leaf ''language'' TString True None),
       Field (Leaf ''level'' TString True None),
       Field (Leaf ''price'' TNumber True None),
       Field (Leaf ''status'' TString True (Some [''published'', ''draft''])),
       Field (Leaf ''visibility'' TString True (Some [''public'', ''private''])),
       DocArray ''chapters''
         [ Leaf ''title'' TString True None,
           Leaf ''content'' TString True None,
           Leaf ''description'' TString True None,
           Leaf ''videoLink'' TString False None,
           Leaf ''duration'' TNumber True None ] ]"

section \<open>Casting\<close>

text \<open>
  Mongoose casts every value it is given for a declared path to the path's type; \<open>None\<close>
  is a failed cast (a CastError). \<open>null\<close> is never cast. A value of the declared type is
  kept as it is.
\<close>

fun castString :: "runtime \<Rightarrow> json \<Rightarrow> json option" where
  "castString rt JNull = Some JNull"
| "castString rt (JStr s) = Some (JStr s)"
| "castString rt (JNum r) = Some (JStr (String_of rt r))"
| "castString rt (JBool b) = Some (JStr (if b then ''true'' else ''false''))"
| "castString rt (JArr xs) = None"
| "castString rt (JObj ob) =
     (case field ob ''_id'' of
        Some (JStr s) \<Rightarrow> if s = [] then None else Some (JStr s)
      | _ \<Rightarrow> None)"

fun castNumber :: "runtime \<Rightarrow> json \<Rightarrow> json option" where
  "castNumber rt JNull = Some JNull"
| "castNumber rt (JStr s) =
     (if s = [] then Some JNull else map_option JNum (Number_of rt s))"
| "castNumber rt (JBool b) = Some (JNum (if b then 1 else 0))"
| "castNumber rt (JNum r) = Some (JNum r)"
| "castNumber rt (JArr xs) = None"
| "castNumber rt (JObj ob) = None"

fun castObjectIdValue :: "json \<Rightarrow> json option" where
  "castObjectIdValue JNull = Some JNull"
| "castObjectIdValue (JStr s) = map_option JStr (castObjectId s)"
| "castObjectIdValue (JObj ob) =
     (case field ob ''_id'' of
        Some (JStr s) \<Rightarrow> map_option JStr (castObjectId s)
      | _ \<Rightarrow> None)"
| "castObjectIdValue v = None"

fun cast_prim :: "runtime \<Rightarrow> ptype \<Rightarrow> json \<Rightarrow> json option" where
  "cast_prim rt TString v = castString rt v"
| "cast_prim rt TNumber v = castNumber rt v"
| "cast_prim rt TObjectId v = castObjectIdValue v"

text \<open>An array path casts each element; a value that is not an array is wrapped in one.\<close>

definition cast_array :: "runtime \<Rightarrow> ptype \<Rightarrow> json \<Rightarrow> json option" where
  "cast_array rt t v =
     (case v of
        JNull \<Rightarrow> Some JNull
      | JArr xs \<Rightarrow> map_option JArr (those (map (cast_prim rt t) xs))
      | _ \<Rightarrow> map_option (\<lambda>x. JArr [x]) (cast_prim rt t v))"

fun cast_leaf :: "runtime \<Rightarrow> leaf \<Rightarrow> json \<Rightarrow> json option" where
  "cast_leaf rt (Leaf n t r e) v = cast_prim rt t v"
| "cast_leaf rt (LeafArray n t r) v = cast_array rt t v"

text \<open>Arrays default to the empty array; other paths have no default.\<close>

fun leaf_default :: "leaf \<Rightarrow> obj" where
  "leaf_default (Leaf n t r e) = []"
| "leaf_default (LeafArray n t r) = [(n, JArr [])]"

text \<open>
  The fields of a (sub)document built from the object \<open>ob\<close>: the declared paths, in the
  schema's order, each with the cast of the value \<open>ob\<close> gives it; keys of \<open>ob\<close> that the
  schema does not declare are dropped (strict mode).
\<close>

fun cast_leaves :: "runtime \<Rightarrow> leaf list \<Rightarrow> obj \<Rightarrow> obj option" where
  "cast_leaves rt [] ob = Some []"
| "cast_leaves rt (l # ls) ob =
     (case field ob (leaf_name l) of
        None \<Rightarrow> map_option (\<lambda>rest. leaf_default l @ rest) (cast_leaves rt ls ob)
      | Some v \<Rightarrow>
          (case cast_leaf rt l v of
             None \<Rightarrow> None
           | Some v' \<Rightarrow> map_option (\<lambda>rest. (leaf_name l, v') # rest) (cast_leaves rt ls ob)))"

text \<open>
  The \<open>_id\<close> of a (sub)document: the one the object supplies, cast, or else a generated
  one.
\<close>

definition cast_id :: "objectid \<Rightarrow> obj \<Rightarrow> json option" where
  "cast_id gen ob =
     (case field ob ''_id'' of
        None \<Rightarrow> Some (JStr gen)
      | Some v \<Rightarrow> castObjectIdValue v)"

definition cast_subdoc :: "runtime \<Rightarrow> objectid \<Rightarrow> leaf list \<Rightarrow> obj \<Rightarrow> obj option" where
  "cast_subdoc rt gen ls ob =
     (case cast_id gen ob of
        None \<Rightarrow> None
      | Some i \<Rightarrow> map_option (\<lambda>fs. (''_id'', i) # fs) (cast_leaves rt ls ob))"

text \<open>
  An element of a subdocument array: an object becomes a subdocument; an array has no
  declared key; a falsy element (\<open>null\<close>, \<open>false\<close>, \<open>0\<close>, the empty string) is left as it
  is; any other element fails.
\<close>

fun cast_elem :: "runtime \<Rightarrow> leaf list \<Rightarrow> nat \<times> json \<Rightarrow> json option" where
  "cast_elem rt ls (i, JObj ob) = map_option JObj (cast_subdoc rt (newObjectId rt (Suc i)) ls ob)"
| "cast_elem rt ls (i, JArr xs) = map_option JObj (cast_subdoc rt (newObjectId rt (Suc i)) ls [])"
| "cast_elem rt ls (i, JNull) = Some JNull"
| "cast_elem rt ls (i, JBool b) = (if b then None else Some (JBool False))"
| "cast_elem rt ls (i, JNum r) = (if r = 0 then Some (JNum 0) else None)"
| "cast_elem rt ls (i, JStr s) = (if s = [] then Some (JStr []) else None)"

definition cast_docarray :: "runtime \<Rightarrow> leaf list \<Rightarrow> json \<Rightarrow> json option" where
  "cast_docarray rt ls v =
     (case v of
        JNull \<Rightarrow> Some JNull
      | JArr xs \<Rightarrow> map_option JArr (those (map (cast_elem rt ls) (enumerate 0 xs)))
      | _ \<Rightarrow> map_option (\<lambda>x. JArr [x]) (cast_elem rt ls (0, v)))"

fun cast_path :: "runtime \<Rightarrow> path \<Rightarrow> json \<Rightarrow> json option" where
  "cast_path rt (Field l) v = cast_leaf rt l v"
| "cast_path rt (DocArray n ls) v = cast_docarray rt ls v"

fun path_default :: "path \<Rightarrow> obj" where
  "path_default (Field l) = leaf_default l"
| "path_default (DocArray n ls) = [(n, JArr [])]"

fun cast_paths :: "runtime \<Rightarrow> schema \<Rightarrow> obj \<Rightarrow> obj option" where
  "cast_paths rt [] ob = Some []"
| "cast_paths rt (p # ps) ob =
     (case field ob (path_name p) of
        None \<Rightarrow> map_option (\<lambda>rest. path_default p @ rest) (cast_paths rt ps ob)
      | Some v \<Rightarrow>
          (case cast_path rt p v of
             None \<Rightarrow> None
           | Some v' \<Rightarrow> map_option (\<lambda>rest. (path_name p, v') # rest) (cast_paths rt ps ob)))"

section \<open>Validation\<close>

text \<open>
  The validators the schemas declare: \<open>required\<close> (the value is there and not \<open>null\<close>; a
  required string is not empty; a required array is an array) and \<open>enum\<close>. There is no
  other validator in src/models: no \<open>min\<close>, no \<open>max\<close>, no integer check.
\<close>

fun valid_leaf :: "leaf \<Rightarrow> json option \<Rightarrow> bool" where
  "valid_leaf (Leaf n t r e) None = (\<not> r)"
| "valid_leaf (Leaf n t r e) (Some JNull) = (\<not> r)"
| "valid_leaf (Leaf n t r e) (Some (JStr s)) =
     ((t = TString \<and> r \<longrightarrow> s \<noteq> []) \<and>
      (case e of None \<Rightarrow> True | Some vs \<Rightarrow> t = TString \<longrightarrow> s \<in> set vs))"
| "valid_leaf (Leaf n t r e) (Some v) = True"
| "valid_leaf (LeafArray n t r) None = (\<not> r)"
| "valid_leaf (LeafArray n t r) (Some JNull) = (\<not> r)"
| "valid_leaf (LeafArray n t r) (Some v) = True"

definition valid_subdoc :: "leaf list \<Rightarrow> obj \<Rightarrow> bool" where
  "valid_subdoc ls ob = list_all (\<lambda>l. valid_leaf l (field ob (leaf_name l))) ls"

fun valid_elem :: "leaf list \<Rightarrow> json \<Rightarrow> bool" where
  "valid_elem ls (JObj ob) = valid_subdoc ls ob"
| "valid_elem ls v = True"

fun valid_path :: "path \<Rightarrow> json option \<Rightarrow> bool" where
  "valid_path (Field l) v = valid_leaf l v"
| "valid_path (DocArray n ls) (Some (JArr xs)) = list_all (valid_elem ls) xs"
| "valid_path (DocArray n ls) v = True"

definition validates :: "schema \<Rightarrow> obj \<Rightarrow> bool" where
  "validates sch d = list_all (\<lambda>p. valid_path p (field d (path_name p))) sch"

text \<open>
  \<open>of_type t v\<close>: the value \<open>v\<close> already has the type \<open>t\<close> (for an ObjectId: it is the
  printed form of one). Casting keeps such a value as it is (lemma \<open>cast_of_type\<close>).
\<close>

fun of_type :: "ptype \<Rightarrow> json \<Rightarrow> bool" where
  "of_type TString (JStr s) = True"
| "of_type TNumber (JNum x) = True"
| "of_type TObjectId (JStr s) = (castObjectId s = Some s)"
| "of_type t v = False"

text \<open>The names of the paths a schema marks \<open>required: true\<close>.\<close>

fun is_required :: "path \<Rightarrow> bool" where
  "is_required (Field (Leaf n t r e)) = r"
| "is_required (Field (LeafArray n t r)) = r"
| "is_required (DocArray n ls) = False"

definition required_paths :: "schema \<Rightarrow> string list" where
  "required_paths sch = map path_name (filter is_required sch)"

section \<open>The store and the model operations\<close>

text \<open>
  The handlers reach the store through Mongoose models. Mongoose is a dependency of the
  repository, not part of it: the operations the handlers call are modelled here as the
  library documents them (version 5 and later), for the schemas of src/models.

  A collection holds its documents under their \<open>_id\<close>, in insertion order. A document
  is kept in the form \<open>res.json\<close> sends it: \<open>_id\<close>, the declared fields, \<open>__v\<close>.
\<close>

type_synonym collection = "(objectid \<times> obj) list"

record store =
  courses :: collection
  quizzes :: collection

datatype mongoose_error =
    CastError
  | ValidationError
  | MissingId
  | DuplicateKey
  | ImmutableField

text \<open>
  \<open>new Model(body)\<close>: the document under construction, or \<open>None\<close> when a cast failed
  (the failure is reported by \<open>save\<close>, as a validation error).
\<close>

definition new_Model :: "runtime \<Rightarrow> schema \<Rightarrow> obj \<Rightarrow> obj option" where
  "new_Model rt sch body =
     (case cast_id (newObjectId rt 0) body of
        None \<Rightarrow> None
      | Some i \<Rightarrow> map_option (\<lambda>fs. (''_id'', i) # fs) (cast_paths rt sch body))"

text \<open>
  \<open>doc.save()\<close> of a new document: validate, then insert with the version key \<open>__v\<close>
  set to 0. The store refuses a second document with the same \<open>_id\<close>; a document whose
  \<open>_id\<close> the body set to \<open>null\<close> is not inserted.
\<close>

definition save :: "schema \<Rightarrow> obj option \<Rightarrow> collection \<Rightarrow> mongoose_error + (obj \<times> collection)" where
  "save sch doc coll =
     (case doc of
        None \<Rightarrow> Inl ValidationError
      | Some d \<Rightarrow>
          if \<not> validates sch d then Inl ValidationError
          else
            (case field d ''_id'' of
               Some (JStr oid) \<Rightarrow>
                 if map_of coll oid \<noteq> None then Inl DuplicateKey
                 else
                   let d' = d @ [(''__v'', JNum 0)]
                   in Inr (d', coll @ [(oid, d')])
             | _ \<Rightarrow> Inl MissingId))"

definition findById :: "string \<Rightarrow> collection \<Rightarrow> mongoose_error + obj option" where
  "findById ident coll =
     (case castObjectId ident of
        None \<Rightarrow> Inl CastError
      | Some oid \<Rightarrow> Inr (map_of coll oid))"

definition findByIdAndDelete ::
  "string \<Rightarrow> collection \<Rightarrow> mongoose_error + (obj option \<times> collection)" where
  "findByIdAndDelete ident coll =
     (case castObjectId ident of
        None \<Rightarrow> Inl CastError
      | Some oid \<Rightarrow>
          (case map_of coll oid of
             None \<Rightarrow> Inr (None, coll)
           | Some d \<Rightarrow> Inr (Some d, AList.delete oid coll)))"

text \<open>
  The paths an update may set: the declared ones and the two every schema has, \<open>_id\<close>
  and \<open>__v\<close>.
\<close>

definition update_paths :: "schema \<Rightarrow> schema" where
  "update_paths sch =
     Field (Leaf ''_id'' TObjectId False None) # sch @ [Field (Leaf ''__v'' TNumber False None)]"

definition find_path :: "schema \<Rightarrow> string \<Rightarrow> path option" where
  "find_path sch k = find (\<lambda>p. path_name p = k) (update_paths sch)"

text \<open>
  The update document of \<open>findByIdAndUpdate(id, body, ...)\<close>: \<open>$set\<close> of the cast of
  each key of the body that is a path; the other keys are dropped (strict mode).
\<close>

fun cast_update :: "runtime \<Rightarrow> schema \<Rightarrow> obj \<Rightarrow> obj option" where
  "cast_update rt sch [] = Some []"
| "cast_update rt sch ((k, v) # kvs) =
     (case find_path sch k of
        None \<Rightarrow> cast_update rt sch kvs
      | Some p \<Rightarrow>
          (case cast_path rt p v of
             None \<Rightarrow> None
           | Some v' \<Rightarrow> map_option (\<lambda>rest. (k, v') # rest) (cast_update rt sch kvs)))"

text \<open>Update validators (\<open>runValidators: true\<close>) run on the paths of the update only.\<close>

definition update_validates :: "schema \<Rightarrow> obj \<Rightarrow> bool" where
  "update_validates sch upd =
     list_all (\<lambda>kv. case find_path sch (fst kv) of
                       None \<Rightarrow> True
                     | Some p \<Rightarrow> valid_path p (Some (snd kv))) upd"

definition apply_set :: "obj \<Rightarrow> obj \<Rightarrow> obj" where
  "apply_set d upd = fold (\<lambda>kv acc. AList.update (fst kv) (snd kv) acc) upd d"

definition changes_id :: "obj \<Rightarrow> objectid \<Rightarrow> bool" where
  "changes_id upd oid = list_ex (\<lambda>kv. fst kv = ''_id'' \<and> snd kv \<noteq> JStr oid) upd"

text \<open>
  \<open>Model.findByIdAndUpdate(id, body, { new: true, runValidators })\<close>: the identifier and
  the body are cast, and the update validated when asked, before the store is read;
  the store refuses an update that would change \<open>_id\<close>; the result is the document after
  the update, or \<open>null\<close> when there is none.
\<close>

definition findByIdAndUpdate ::
  "runtime \<Rightarrow> schema \<Rightarrow> bool \<Rightarrow> string \<Rightarrow> obj \<Rightarrow> collection
     \<Rightarrow> mongoose_error + (obj option \<times> collection)" where
  "findByIdAndUpdate rt sch runValidators ident body coll =
     (case castObjectId ident of
        None \<Rightarrow> Inl CastError
      | Some oid \<Rightarrow>
          (case cast_update rt sch body of
             None \<Rightarrow> Inl CastError
           | Some upd \<Rightarrow>
               if runValidators \<and> \<not> update_validates sch upd then Inl ValidationError
               else
                 (case map_of coll oid of
                    None \<Rightarrow> Inr (None, coll)
                  | Some d \<Rightarrow>
                      if changes_id upd oid then Inl ImmutableField
                      else
                        let d' = apply_set d upd
                        in Inr (Some d', AList.update oid d' coll))))"

section \<open>The route handlers\<close>

text \<open>
  A response is the status and the JSON body. \<open>BErrorOf e\<close> is \<open>{ error: err.message }\<close>
  for the error \<open>e\<close> the model raised; \<open>BError s\<close> is \<open>{ error: s }\<close> and \<open>BMessage s\<close> is
  \<open>{ message: s }\<close>.
\<close>

datatype body =
    BDoc obj
  | BError string
  | BErrorOf mongoose_error
  | BMessage string

type_synonym response = "nat \<times> body"

subsection \<open>Courses (src/unnamed/part_001)\<close>

definition post_courses :: "runtime \<Rightarrow> obj \<Rightarrow> store \<Rightarrow> response \<times> store" where
  "post_courses rt req_body st =
     (case save courseSchema (new_Model rt courseSchema req_body) (courses st) of
        Inl err \<Rightarrow> ((400, BErrorOf err), st)
      | Inr (course, cs) \<Rightarrow> ((201, BDoc course), st\<lparr>courses := cs\<rparr>))"

definition get_course :: "string \<Rightarrow> store \<Rightarrow> response \<times> store" where
  "get_course ident st =
     (case findById ident (courses st) of
        Inl err \<Rightarrow> ((400, BErrorOf err), st)
      | Inr None \<Rightarrow> ((404, BError ''Course not found''), st)
      | Inr (Some course) \<Rightarrow> ((200, BDoc course), st))"

definition put_course :: "runtime \<Rightarrow> string \<Rightarrow> obj \<Rightarrow> store \<Rightarrow> response \<times> store" where
  "put_course rt ident req_body st =
     (case findByIdAndUpdate rt courseSchema False ident req_body (courses st) of
        Inl err \<Rightarrow> ((400, BErrorOf err), st)
      | Inr (None, cs) \<Rightarrow> ((404, BError ''Course not found''), st\<lparr>courses := cs\<rparr>)
      | Inr (Some updatedCourse, cs) \<Rightarrow> ((200, BDoc updatedCourse), st\<lparr>courses := cs\<rparr>))"

definition delete_course :: "string \<Rightarrow> store \<Rightarrow> response \<times> store" where
  "delete_course ident st =
     (case findByIdAndDelete ident (courses st) of
        Inl err \<Rightarrow> ((400, BErrorOf err), st)
      | Inr (None, cs) \<Rightarrow> ((404, BError ''Course not found''), st\<lparr>courses := cs\<rparr>)
      | Inr (Some course, cs) \<Rightarrow> ((200, BMessage ''Course deleted''), st\<lparr>courses := cs\<rparr>))"

subsection \<open>Quizzes (src/routes/quizzes.js)\<close>

text \<open>
  \<open>{ ...req.body, courseId: req.params.courseId }\<close>: the body with \<open>courseId\<close> set to the
  path parameter, whatever the body gave it.
\<close>

definition post_course_quizzes ::
  "runtime \<Rightarrow> string \<Rightarrow> obj \<Rightarrow> store \<Rightarrow> response \<times> store" where
  "post_course_quizzes rt courseId req_body st =
     (case findById courseId (courses st) of
        Inl err \<Rightarrow> ((400, BErrorOf err), st)
      | Inr None \<Rightarrow> ((404, BError ''Course not found''), st)
      | Inr (Some course) \<Rightarrow>
          (case save quizSchema
                  (new_Model rt quizSchema (AList.update ''courseId'' (JStr courseId) req_body))
                  (quizzes st) of
             Inl err \<Rightarrow> ((400, BErrorOf err), st)
           | Inr (quiz, qs) \<Rightarrow> ((201, BDoc quiz), st\<lparr>quizzes := qs\<rparr>)))"

definition get_quiz :: "string \<Rightarrow> store \<Rightarrow> response \<times> store" where
  "get_quiz ident st =
     (case findById ident (quizzes st) of
        Inl err \<Rightarrow> ((400, BErrorOf err), st)
      | Inr None \<Rightarrow> ((404, BError ''Quiz not found''), st)
      | Inr (Some quiz) \<Rightarrow> ((200, BDoc quiz), st))"

definition put_quiz :: "runtime \<Rightarrow> string \<Rightarrow> obj \<Rightarrow> store \<Rightarrow> response \<times> store" where
  "put_quiz rt quizId updatedQuiz st =
     (case findByIdAndUpdate rt quizSchema True quizId updatedQuiz (quizzes st) of
        Inl err \<Rightarrow> ((500, BMessage ''Server error''), st)
      | Inr (None, qs) \<Rightarrow> ((404, BMessage ''Quiz not found''), st\<lparr>quizzes := qs\<rparr>)
      | Inr (Some quiz, qs) \<Rightarrow> ((200, BDoc quiz), st\<lparr>quizzes := qs\<rparr>))"

definition delete_quiz :: "string \<Rightarrow> store \<Rightarrow> response \<times> store" where
  "delete_quiz ident st =
     (case findByIdAndDelete ident (quizzes st) of
        Inl err \<Rightarrow> ((400, BErrorOf err), st)
      | Inr (None, qs) \<Rightarrow> ((404, BError ''Quiz not found''), st\<lparr>quizzes := qs\<rparr>)
      | Inr (Some quiz, qs) \<Rightarrow> ((200, BMessage ''Quiz deleted''), st\<lparr>quizzes := qs\<rparr>))"

section \<open>A runtime and data for the closed examples\<close>

text \<open>
  The theorems below hold for every runtime. The closed examples fix one: the ObjectIds
  generated for request \<open>b\<close> end in the hexadecimal digits \<open>b\<close>, \<open>b + 1\<close>, ... and the
  two conversions are those of unsigned decimal integer literals. Every value in the
  examples already has the type of its path, so no conversion is called there.
\<close>

definition digit_val :: "char \<Rightarrow> nat option" where
  "digit_val c = (if c \<in> set ''0123456789'' then Some (of_char c - 48) else None)"

fun decimal_nat :: "nat \<Rightarrow> string \<Rightarrow> nat option" where
  "decimal_nat acc [] = Some acc"
| "decimal_nat acc (c # cs) =
     (case digit_val c of None \<Rightarrow> None | Some d \<Rightarrow> decimal_nat (10 * acc + d) cs)"

fun nat_digits :: "nat \<Rightarrow> string" where
  "nat_digits n =
     (if n < 10 then [char_of (48 + n)] else nat_digits (n div 10) @ [char_of (48 + n mod 10)])"

definition hex_digit :: "nat \<Rightarrow> char" where
  "hex_digit n = ''0123456789abcdef'' ! (n mod 16)"

definition runtime_at :: "nat \<Rightarrow> runtime" where
  "runtime_at b =
     \<lparr> Number_of = (\<lambda>s. map_option of_nat (decimal_nat 0 s)),
       String_of = (\<lambda>r. nat_digits (nat \<lfloor>r\<rfloor>)),
       newObjectId = (\<lambda>n. ''65a1b2c3d4e5f6a7b8c9d0e'' @ [hex_digit (b + n)]) \<rparr>"

definition course_body :: obj where
  "course_body =
     [ (''category'', JStr ''math''), (''title'', JStr ''Intro''), (''description'', JStr ''d''),
       (''duration'', JNum 5), (''instructorName'', JStr ''A''), (''language'', JStr ''en''),
       (''level'', JStr ''beginner''), (''price'', JNum 10), (''status'', JStr ''draft''),
       (''visibility'', JStr ''private'') ]"

definition example_course :: obj where
  "example_course = (''_id'', JStr ''65a1b2c3d4e5f6a7b8c9d0e0'') # course_body @
     [ (''chapters'', JArr []), (''__v'', JNum 0) ]"

definition quiz_body :: obj where
  "quiz_body =
     [ (''courseId'', JStr ''ffffffffffffffffffffffff''),
       (''questions'', JArr [ JObj [ (''question'', JStr ''2 + 2?''),
                                     (''options'', JArr [JStr ''3'', JStr ''4'']),
                                     (''correctAnswer'', JStr ''4'') ] ]) ]"

definition example_quiz :: obj where
  "example_quiz =
     [ (''_id'', JStr ''65a1b2c3d4e5f6a7b8c9d0e1''),
       (''courseId'', JStr ''65a1b2c3d4e5f6a7b8c9d0e0''),
       (''questions'', JArr [ JObj [ (''_id'', JStr ''65a1b2c3d4e5f6a7b8c9d0e2''),
                                     (''question'', JStr ''2 + 2?''),
                                     (''options'', JArr [JStr ''3'', JStr ''4'']),
                                     (''correctAnswer'', JStr ''4'') ] ]),
       (''__v'', JNum 0) ]"

definition empty_store :: store where
  "empty_store = \<lparr> courses = [], quizzes = [] \<rparr>"

definition store_with_course :: store where
  "store_with_course = \<lparr> courses = [(''65a1b2c3d4e5f6a7b8c9d0e0'', example_course)], quizzes = [] \<rparr>"

definition store_with_quiz :: store where
  "store_with_quiz =
     \<lparr> courses = [(''65a1b2c3d4e5f6a7b8c9d0e0'', example_course)],
       quizzes = [(''65a1b2c3d4e5f6a7b8c9d0e1'', example_quiz)] \<rparr>"



definition archived_course :: obj where
  "archived_course =
     [ (''_id'', JStr ''65a1b2c3d4e5f6a7b8c9d0e0''),
       (''category'', JStr ''math''), (''title'', JNull), (''description'', JStr ''d''),
       (''duration'', JNum 5), (''instructorName'', JStr ''A''), (''language'', JStr ''en''),
       (''level'', JStr ''beginner''), (''price'', JNum 10), (''status'', JStr ''archived''),
       (''visibility'', JStr ''private''), (''chapters'', JArr []), (''__v'', JNum 0) ]"



section \<open>Lemmas on objects and casting\<close>

lemma field_Cons: "field ((k, v) # ob) k' = (if k' = k then Some v else field ob k')"
  by (simp add: field_def)

lemma field_Nil: "field [] k = None"
  by (simp add: field_def)

lemma field_append: "field (xs @ ys) k = (case field xs k of None \<Rightarrow> field ys k | Some v \<Rightarrow> Some v)"
  by (simp add: field_def map_add_def split: option.splits)

lemma field_leaf_default: "k \<noteq> leaf_name l \<Longrightarrow> field (leaf_default l) k = None"
  by (cases l) (simp_all add: field_def)

lemma field_path_default: "k \<noteq> path_name p \<Longrightarrow> field (path_default p) k = None"
  by (cases p) (simp_all add: field_def field_leaf_default[unfolded field_def])

lemma find_None_name: "k \<notin> path_name ` set ps \<Longrightarrow> find (\<lambda>p. path_name p = k) ps = None"
  by (induction ps) auto

lemma field_cast_paths:
  "cast_paths rt sch ob = Some fs \<Longrightarrow> distinct (map path_name sch) \<Longrightarrow>
   field fs k =
     (case find (\<lambda>p. path_name p = k) sch of
        None \<Rightarrow> None
      | Some p \<Rightarrow> (case field ob k of None \<Rightarrow> field (path_default p) k | Some v \<Rightarrow> cast_path rt p v))"
proof (induction sch arbitrary: fs)
  case Nil
  then show ?case by (simp add: field_Nil)
next
  case (Cons p ps)
  have d: "distinct (map path_name ps)" and n: "path_name p \<notin> path_name ` set ps"
    using Cons.prems(2) by auto
  show ?case
  proof (cases "field ob (path_name p)")
    case None
    with Cons.prems obtain rest where r: "cast_paths rt ps ob = Some rest" "fs = path_default p @ rest"
      by auto
    show ?thesis
    proof (cases "k = path_name p")
      case True
      have "find (\<lambda>q. path_name q = k) ps = None" using n True by (simp add: find_None_name)
      then have "field rest k = None" using Cons.IH[OF r(1) d] by simp
      then show ?thesis using True r(2) None by (simp add: field_append split: option.splits)
    next
      case False
      then show ?thesis using Cons.IH[OF r(1) d] r(2)
        by (simp add: field_append field_path_default)
    qed
  next
    case (Some v)
    with Cons.prems obtain v' rest where r: "cast_path rt p v = Some v'"
       "cast_paths rt ps ob = Some rest" "fs = (path_name p, v') # rest"
      by (auto split: option.splits)
    show ?thesis using Cons.IH[OF r(2) d] r(1,3) Some
      by (auto simp: field_Cons split: option.splits)
  qed
qed

lemma lower_hex_hex: "is_hex c \<Longrightarrow> is_hex (lower_hex c) \<and> lower_hex (lower_hex c) = lower_hex c"
  unfolding is_hex_def lower_hex_def by (elim rev_mp) simp

lemma castObjectId_canonical: "castObjectId s = Some oid \<Longrightarrow> castObjectId oid = Some oid"
  by (auto simp: castObjectId_def list_all_iff lower_hex_hex split: if_splits)

lemmas example_defs = runtime_at_def hex_digit_def course_body_def example_course_def quiz_body_def
  example_quiz_def empty_store_def store_with_course_def store_with_quiz_def

lemmas model_defs = new_Model_def save_def findById_def findByIdAndDelete_def findByIdAndUpdate_def
  cast_id_def cast_subdoc_def cast_docarray_def cast_array_def validates_def valid_subdoc_def
  update_validates_def update_paths_def find_path_def apply_set_def changes_id_def field_def
  castObjectId_def is_hex_def lower_hex_def courseSchema_def quizSchema_def Let_def

lemma post_courses_example:
  "post_courses (runtime_at 0) course_body empty_store = ((201, BDoc example_course), store_with_course)"
  by (simp add: post_courses_def model_defs example_defs)


section \<open>Lemmas on the model operations\<close>

lemma distinct_courseSchema: "distinct (map path_name courseSchema)"
  by (simp add: courseSchema_def)


lemma new_Model_Some:
  "new_Model rt sch body = Some d \<Longrightarrow>
   \<exists>i fs. d = (''_id'', i) # fs \<and> cast_id (newObjectId rt 0) body = Some i \<and> cast_paths rt sch body = Some fs"
  by (auto simp: new_Model_def split: option.splits)

lemma save_Inr:
  "save sch doc coll = Inr (d', coll') \<Longrightarrow>
   \<exists>d oid. doc = Some d \<and> validates sch d \<and> field d ''_id'' = Some (JStr oid) \<and>
     map_of coll oid = None \<and> d' = d @ [(''__v'', JNum 0)] \<and> coll' = coll @ [(oid, d')]"
  by (auto simp: save_def Let_def split: option.splits if_splits json.splits)

lemma cast_prim_null: "cast_prim rt t JNull = Some JNull"
  by (cases t) simp_all

lemma required_paths_leaf:
  "k \<in> set (required_paths sch) \<Longrightarrow>
   (\<exists>t e. Field (Leaf k t True e) \<in> set sch) \<or> (\<exists>t. Field (LeafArray k t True) \<in> set sch)"
proof (induction sch)
  case Nil
  then show ?case by (simp add: required_paths_def)
next
  case (Cons p ps)
  show ?case
  proof (cases "k \<in> set (required_paths ps)")
    case True
    with Cons.IH show ?thesis by auto
  next
    case False
    with Cons.prems have "is_required p" and "path_name p = k"
      by (auto simp: required_paths_def split: if_splits)
    then show ?thesis by (cases p rule: is_required.cases) auto
  qed
qed

lemma required_missing_invalid:
  assumes c: "cast_paths rt sch body = Some fs" and dist: "distinct (map path_name sch)"
    and p: "Field (Leaf k t True e) \<in> set sch" and k: "k \<noteq> ''_id''"
    and m: "field body k = None \<or> field body k = Some JNull"
  shows "\<not> validates sch ((''_id'', i) # fs)"
proof -
  have f: "find (\<lambda>q. path_name q = k) sch = Some (Field (Leaf k t True e))"
    using dist p by (induction sch) (auto simp: image_iff)
  have "field fs k = None \<or> field fs k = Some JNull"
    using field_cast_paths [OF c dist, of k] f m
    by (auto simp: cast_prim_null field_Nil)
  then have "\<not> valid_path (Field (Leaf k t True e)) (field ((''_id'', i) # fs) k)"
    using k by (auto simp: field_Cons)
  then have "\<not> valid_path (Field (Leaf k t True e))
      (field ((''_id'', i) # fs) (path_name (Field (Leaf k t True e))))"
    by simp
  with p show ?thesis
    unfolding validates_def list_all_iff by blast
qed

lemma malformed_id_400:
  assumes "castObjectId ident = None"
  shows "get_course ident st = ((400, BErrorOf CastError), st)"
    and "put_course rt ident req_body st = ((400, BErrorOf CastError), st)"
    and "delete_course ident st = ((400, BErrorOf CastError), st)"
    and "get_quiz ident st = ((400, BErrorOf CastError), st)"
    and "delete_quiz ident st = ((400, BErrorOf CastError), st)"
    and "put_quiz rt ident req_body st = ((500, BMessage ''Server error''), st)"
  using assms
  by (simp_all add: get_course_def put_course_def delete_course_def get_quiz_def delete_quiz_def
      put_quiz_def findById_def findByIdAndUpdate_def findByIdAndDelete_def)

lemma cast_of_type: "of_type t v \<Longrightarrow> cast_path rt (Field (Leaf k t r e)) v = Some v"
  by (cases "(t, v)" rule: of_type.cases) simp_all

lemma castString_result: "castString rt v = Some w \<Longrightarrow> w = JNull \<or> (\<exists>s. w = JStr s)"
  by (cases v) (auto split: option.splits json.splits if_splits)



lemma validates_path: "validates sch d \<Longrightarrow> p \<in> set sch \<Longrightarrow> valid_path p (field d (path_name p))"
  by (simp add: validates_def list_all_iff)

lemma post_courses_201:
  assumes "post_courses rt req_body st = ((201, BDoc course), st')"
  shows "\<exists>i fs oid. cast_id (newObjectId rt 0) req_body = Some i \<and>
           cast_paths rt courseSchema req_body = Some fs \<and>
           validates courseSchema ((''_id'', i) # fs) \<and> i = JStr oid \<and>
           map_of (courses st) oid = None \<and>
           course = (''_id'', i) # fs @ [(''__v'', JNum 0)] \<and>
           st' = st\<lparr>courses := courses st @ [(oid, course)]\<rparr>"
proof -
  from assms obtain cs where
    s: "save courseSchema (new_Model rt courseSchema req_body) (courses st) = Inr (course, cs)"
    and st': "st' = st\<lparr>courses := cs\<rparr>"
    by (auto simp: post_courses_def split: sum.splits)
  from save_Inr [OF s] obtain d oid where
    n: "new_Model rt courseSchema req_body = Some d" and v: "validates courseSchema d"
    and i: "field d ''_id'' = Some (JStr oid)" and fresh: "map_of (courses st) oid = None"
    and c: "course = d @ [(''__v'', JNum 0)]" and cs: "cs = courses st @ [(oid, course)]" by blast
  from new_Model_Some [OF n] obtain j fs where
    d: "d = (''_id'', j) # fs" and cj: "cast_id (newObjectId rt 0) req_body = Some j"
    and cp: "cast_paths rt courseSchema req_body = Some fs" by blast
  from i d have "j = JStr oid" by (simp add: field_Cons)
  then show ?thesis using cj cp v fresh c cs st' d by simp
qed

lemma created_field:
  assumes "post_courses rt req_body st = ((201, BDoc course), st')" and "k \<noteq> ''_id''" and "k \<noteq> ''__v''"
  shows "field course k =
     (case find (\<lambda>p. path_name p = k) courseSchema of
        None \<Rightarrow> None
      | Some p \<Rightarrow> (case field req_body k of None \<Rightarrow> field (path_default p) k | Some v \<Rightarrow> cast_path rt p v))"
proof -
  from post_courses_201 [OF assms(1)] obtain i fs where
    cp: "cast_paths rt courseSchema req_body = Some fs"
    and c: "course = (''_id'', i) # fs @ [(''__v'', JNum 0)]" by blast
  have "field course k = field fs k"
    using assms(2,3) by (simp add: c field_Cons field_append field_Nil split: option.splits)
  then show ?thesis using field_cast_paths [OF cp distinct_courseSchema, of k] by simp
qed









section \<open>The claims\<close>

text \<open>
  C1 (as stated, refuted). A quiz-create request whose \<open>courseId\<close> is not a well-formed
  identifier names no course of the store, and the handler answers 400, not 404.
\<close>

theorem quiz_create_malformed_course_counterexample:
  "map_of (courses store_with_course) ''abc'' = None \<and>
   post_course_quizzes (runtime_at 1) ''abc'' quiz_body store_with_course
     = ((400, BErrorOf CastError), store_with_course)"
  by (simp add: post_course_quizzes_def model_defs example_defs)

text \<open>
  C1 (amended). When \<open>courseId\<close> is a well-formed identifier and the store has no course
  under it, the handler answers 404 \<open>Course not found\<close>; when \<open>courseId\<close> is malformed it
  answers 400. In both cases the store it returns is the store it was given: the read
  of the course comes first, and nothing is written.
\<close>

theorem quiz_create_missing_course:
  "(castObjectId courseId = None \<longrightarrow>
      post_course_quizzes rt courseId req_body st = ((400, BErrorOf CastError), st)) \<and>
   (\<forall>oid. castObjectId courseId = Some oid \<and> map_of (courses st) oid = None \<longrightarrow>
      post_course_quizzes rt courseId req_body st = ((404, BError ''Course not found''), st))"
  by (simp add: post_course_quizzes_def findById_def)

theorem quiz_create_missing_course_witness:
  "castObjectId ''65a1b2c3d4e5f6a7b8c9d0e9'' = Some ''65a1b2c3d4e5f6a7b8c9d0e9'' \<and>
   map_of (courses store_with_course) ''65a1b2c3d4e5f6a7b8c9d0e9'' = None \<and>
   post_course_quizzes (runtime_at 1) ''65a1b2c3d4e5f6a7b8c9d0e9'' quiz_body store_with_course
     = ((404, BError ''Course not found''), store_with_course) \<and>
   castObjectId ''no-such-course'' = None \<and>
   post_course_quizzes (runtime_at 1) ''no-such-course'' quiz_body store_with_course
     = ((400, BErrorOf CastError), store_with_course)"
proof -
  have c: "castObjectId ''65a1b2c3d4e5f6a7b8c9d0e9'' = Some ''65a1b2c3d4e5f6a7b8c9d0e9''"
    by (simp add: castObjectId_def is_hex_def lower_hex_def)
  have m: "map_of (courses store_with_course) ''65a1b2c3d4e5f6a7b8c9d0e9'' = None"
    by (simp add: store_with_course_def)
  have n: "castObjectId ''no-such-course'' = None"
    by (simp add: castObjectId_def)
  show ?thesis
    using quiz_create_missing_course [of "''65a1b2c3d4e5f6a7b8c9d0e9''" "runtime_at 1" quiz_body store_with_course]
      quiz_create_missing_course [of "''no-such-course''" "runtime_at 1" quiz_body store_with_course]
      c m n by simp
qed

text \<open>
  C2 (the code at the failing input). The course PUT calls \<open>findByIdAndUpdate\<close> without
  \<open>runValidators\<close>, so the schema's validators do not run on an update: on an existing
  course the body \<open>{status: "archived", title: null}\<close> is answered 200, and the stored
  record then has a status outside the enumeration and a required field that is \<open>null\<close>.
  The quiz PUT passes \<open>runValidators: true\<close>.
\<close>

theorem put_course_invalid_status:
  "put_course (runtime_at 2) ''65a1b2c3d4e5f6a7b8c9d0e0''
       [(''status'', JStr ''archived''), (''title'', JNull)] store_with_course
     = ((200, BDoc archived_course),
        \<lparr> courses = [(''65a1b2c3d4e5f6a7b8c9d0e0'', archived_course)], quizzes = [] \<rparr>) \<and>
   field archived_course ''status'' = Some (JStr ''archived'') \<and>
   field archived_course ''title'' = Some JNull"
  by (simp add: put_course_def model_defs example_defs archived_course_def)







text \<open>
  C5. The required paths of the course schema are the ten the claim lists, and a body
  that lacks one of them (or gives it \<open>null\<close>) gets 400, with the store unchanged.
\<close>

theorem post_courses_missing_required:
  "required_paths courseSchema =
     [''category'', ''title'', ''description'', ''duration'', ''instructorName'', ''language'',
      ''level'', ''price'', ''status'', ''visibility''] \<and>
   (k \<in> set (required_paths courseSchema) \<and> (field req_body k = None \<or> field req_body k = Some JNull)
      \<longrightarrow> post_courses rt req_body st = ((400, BErrorOf ValidationError), st))"
proof (intro conjI impI)
  show "required_paths courseSchema =
     [''category'', ''title'', ''description'', ''duration'', ''instructorName'', ''language'',
      ''level'', ''price'', ''status'', ''visibility'']"
    by (simp add: required_paths_def courseSchema_def)
next
  assume a: "k \<in> set (required_paths courseSchema) \<and> (field req_body k = None \<or> field req_body k = Some JNull)"
  have "''_id'' \<notin> set (required_paths courseSchema)"
    by (simp add: required_paths_def courseSchema_def)
  with a have k: "k \<noteq> ''_id''" by blast
  have "\<And>t. Field (LeafArray k t True) \<notin> set courseSchema"
    by (simp add: courseSchema_def)
  with a required_paths_leaf [of k courseSchema]
  obtain t e where p: "Field (Leaf k t True e) \<in> set courseSchema" by blast
  show "post_courses rt req_body st = ((400, BErrorOf ValidationError), st)"
  proof (cases "new_Model rt courseSchema req_body")
    case None
    then show ?thesis by (simp add: post_courses_def save_def)
  next
    case (Some d)
    from new_Model_Some [OF Some] obtain i fs where
      d: "d = (''_id'', i) # fs" and c: "cast_paths rt courseSchema req_body = Some fs" by blast
    have "\<not> validates courseSchema d"
      unfolding d using required_missing_invalid [OF c distinct_courseSchema p k] a by blast
    then show ?thesis using Some by (simp add: post_courses_def save_def)
  qed
qed

theorem post_courses_missing_required_witness:
  "''price'' \<in> set (required_paths courseSchema) \<and>
   field (AList.delete ''price'' course_body) ''price'' = None \<and>
   post_courses (runtime_at 0) (AList.delete ''price'' course_body) empty_store
     = ((400, BErrorOf ValidationError), empty_store)"
proof -
  have f: "field (AList.delete ''price'' course_body) ''price'' = None"
    by (simp add: field_def delete_conv')
  show ?thesis
    using post_courses_missing_required [of "''price''" "AList.delete ''price'' course_body" "runtime_at 0" empty_store] f
    by simp
qed




text \<open>
  C7 (the code at the failing input). With a malformed identifier the quiz PUT answers
  500 \<open>Server error\<close>, where the claim, the handler's own annotation and the five
  other by-id handlers (lemma \<open>malformed_id_400\<close>) say 400.
\<close>

theorem put_quiz_malformed_id:
  "castObjectId ''abc'' = None \<and>
   put_quiz (runtime_at 2) ''abc'' [] store_with_quiz = ((500, BMessage ''Server error''), store_with_quiz)"
  by (simp add: put_quiz_def model_defs example_defs)

text \<open>
  C8. Deleting an existing course removes that course record and no other, and leaves
  the quiz collection as it was, also the quizzes whose \<open>courseId\<close> names the deleted
  course: there is no cascade.
\<close>

theorem delete_course_frame:
  assumes "castObjectId ident = Some oid" and "map_of (courses st) oid = Some d"
  shows "fst (delete_course ident st) = (200, BMessage ''Course deleted'') \<and>
         quizzes (snd (delete_course ident st)) = quizzes st \<and>
         map_of (courses (snd (delete_course ident st))) = (map_of (courses st))(oid := None)"
  using assms by (simp add: delete_course_def findByIdAndDelete_def delete_conv')

theorem delete_course_frame_witness:
  "castObjectId ''65a1b2c3d4e5f6a7b8c9d0e0'' = Some ''65a1b2c3d4e5f6a7b8c9d0e0'' \<and>
   map_of (courses store_with_quiz) ''65a1b2c3d4e5f6a7b8c9d0e0'' = Some example_course \<and>
   field example_quiz ''courseId'' = Some (JStr ''65a1b2c3d4e5f6a7b8c9d0e0'') \<and>
   fst (delete_course ''65a1b2c3d4e5f6a7b8c9d0e0'' store_with_quiz) = (200, BMessage ''Course deleted'') \<and>
   quizzes (snd (delete_course ''65a1b2c3d4e5f6a7b8c9d0e0'' store_with_quiz))
     = [(''65a1b2c3d4e5f6a7b8c9d0e1'', example_quiz)] \<and>
   map_of (courses (snd (delete_course ''65a1b2c3d4e5f6a7b8c9d0e0'' store_with_quiz)))
     = (map_of (courses store_with_quiz))(''65a1b2c3d4e5f6a7b8c9d0e0'' := None)"
proof -
  have c: "castObjectId ''65a1b2c3d4e5f6a7b8c9d0e0'' = Some ''65a1b2c3d4e5f6a7b8c9d0e0''"
    by (simp add: castObjectId_def is_hex_def lower_hex_def)
  have m: "map_of (courses store_with_quiz) ''65a1b2c3d4e5f6a7b8c9d0e0'' = Some example_course"
    by (simp add: store_with_quiz_def)
  have f: "field example_quiz ''courseId'' = Some (JStr ''65a1b2c3d4e5f6a7b8c9d0e0'')"
    by (simp add: example_quiz_def field_def)
  have q: "quizzes store_with_quiz = [(''65a1b2c3d4e5f6a7b8c9d0e1'', example_quiz)]"
    by (simp add: store_with_quiz_def)
  show ?thesis using delete_course_frame [OF c m] c m f q by simp
qed






section \<open>Further properties\<close>

text \<open>
  What create guarantees of the invariant of C2: a record that POST /api/courses accepts
  has a status and a visibility among the enumerated values, and every required path
  present and not \<open>null\<close>.
\<close>

theorem created_course_valid:
  assumes "post_courses rt req_body st = ((201, BDoc course), st')"
  shows "(field course ''status'' = Some (JStr ''published'') \<or>
          field course ''status'' = Some (JStr ''draft'')) \<and>
         (field course ''visibility'' = Some (JStr ''public'') \<or>
          field course ''visibility'' = Some (JStr ''private'')) \<and>
         (\<forall>k. k \<in> set (required_paths courseSchema) \<longrightarrow>
            field course k \<noteq> None \<and> field course k \<noteq> Some JNull)"
proof -
  from post_courses_201 [OF assms] obtain i fs where
    v: "validates courseSchema ((''_id'', i) # fs)"
    and c: "course = (''_id'', i) # fs @ [(''__v'', JNum 0)]" by blast
  have same: "field ((''_id'', i) # fs) k = field course k" if "k \<noteq> ''__v''" for k
    using that by (simp add: c field_Cons field_append field_Nil split: option.splits)
  have req: "field course k \<noteq> None \<and> field course k \<noteq> Some JNull"
    if "k \<in> set (required_paths courseSchema)" for k
  proof -
    have "\<And>t. Field (LeafArray k t True) \<notin> set courseSchema"
      by (simp add: courseSchema_def)
    with that required_paths_leaf [of k courseSchema]
    obtain t e where p: "Field (Leaf k t True e) \<in> set courseSchema" by blast
    have "''__v'' \<notin> set (required_paths courseSchema)"
      by (simp add: required_paths_def courseSchema_def)
    with that have "k \<noteq> ''__v''" by blast
    with validates_path [OF v p] same [of k]
    have "valid_leaf (Leaf k t True e) (field course k)" by simp
    then show ?thesis by (cases "field course k") auto
  qed
  have fs: "field course ''status'' =
      (case field req_body ''status'' of None \<Rightarrow> None | Some v \<Rightarrow> castString rt v)"
    using created_field [OF assms, of "''status''"]
    by (simp add: courseSchema_def field_Nil split: option.splits)
  have fv: "field course ''visibility'' =
      (case field req_body ''visibility'' of None \<Rightarrow> None | Some v \<Rightarrow> castString rt v)"
    using created_field [OF assms, of "''visibility''"]
    by (simp add: courseSchema_def field_Nil split: option.splits)
  have vs: "valid_leaf (Leaf ''status'' TString True (Some [''published'', ''draft''])) (field course ''status'')"
    using validates_path [OF v, of "Field (Leaf ''status'' TString True (Some [''published'', ''draft'']))"]
      same [of "''status''"]
    by (simp add: courseSchema_def)
  have vv: "valid_leaf (Leaf ''visibility'' TString True (Some [''public'', ''private''])) (field course ''visibility'')"
    using validates_path [OF v, of "Field (Leaf ''visibility'' TString True (Some [''public'', ''private'']))"]
      same [of "''visibility''"]
    by (simp add: courseSchema_def)
  have 1: "field course ''status'' = Some (JStr ''published'') \<or> field course ''status'' = Some (JStr ''draft'')"
  proof (cases "field course ''status''")
    case None
    with vs show ?thesis by simp
  next
    case (Some w)
    with fs obtain x where "castString rt x = Some w" by (auto split: option.splits)
    from castString_result [OF this] Some vs show ?thesis by auto
  qed
  have 2: "field course ''visibility'' = Some (JStr ''public'') \<or> field course ''visibility'' = Some (JStr ''private'')"
  proof (cases "field course ''visibility''")
    case None
    with vv show ?thesis by simp
  next
    case (Some w)
    with fv obtain x where "castString rt x = Some w" by (auto split: option.splits)
    from castString_result [OF this] Some vv show ?thesis by auto
  qed
  show ?thesis using 1 2 req by blast
qed

theorem created_course_valid_witness:
  "post_courses (runtime_at 0) course_body empty_store = ((201, BDoc example_course), store_with_course) \<and>
   field example_course ''status'' = Some (JStr ''draft'') \<and>
   field example_course ''visibility'' = Some (JStr ''private'') \<and>
   ''title'' \<in> set (required_paths courseSchema) \<and>
   field example_course ''title'' \<noteq> None \<and> field example_course ''title'' \<noteq> Some JNull"
proof -
  have r: "''title'' \<in> set (required_paths courseSchema)"
    by (simp add: required_paths_def courseSchema_def)
  have f: "field example_course ''status'' = Some (JStr ''draft'')"
    "field example_course ''visibility'' = Some (JStr ''private'')"
    by (simp_all add: field_def example_course_def course_body_def)
  from created_course_valid [OF post_courses_example] r
  have "field example_course ''title'' \<noteq> None \<and> field example_course ''title'' \<noteq> Some JNull"
    by blast
  then show ?thesis using r f post_courses_example by simp
qed

end
